theory Spec2Isabelle
  imports Complex_Main "HOL-Library.Word"
begin

section \<open>Python values used by the extractor\<close>

text \<open>
  The document is a byte string. Page numbers are Python integers (unbounded) behind
  \<open>Optional\<close>; the layout endpoint is an \<open>Optional[str]\<close>. The source tests all three
  by truthiness (\<open>if x and y\<close>, \<open>if not x\<close>), so \<open>None\<close>, \<open>0\<close> and the empty
  string count as false.
\<close>

type_synonym bytes = "8 word list"

definition truthy_int :: "int option \<Rightarrow> bool" where
  "truthy_int x = (case x of None \<Rightarrow> False | Some n \<Rightarrow> n \<noteq> 0)"

definition truthy_str :: "string option \<Rightarrow> bool" where
  "truthy_str x = (case x of None \<Rightarrow> False | Some s \<Rightarrow> s \<noteq> [])"

text \<open>Exceptions that can leave \<open>from_bytes\<close>: the source has no \<open>try\<close>.\<close>

datatype error =
    ExternalError string  \<comment> \<open>raised inside a library or service call\<close>
  | IndexError            \<comment> \<open>\<open>completion.choices[0]\<close> on an empty list\<close>
  | AttributeError        \<comment> \<open>\<open>None.model_dump()\<close>\<close>
  | KeyError string       \<comment> \<open>\<open>confidence[OVERALL_CONFIDENCE_KEY]\<close>\<close>
  | UnboundLocalError     \<comment> \<open>\<open>result\<close> read without having been assigned\<close>

subsection \<open>\<open>str(int)\<close> and f-string formatting\<close>

definition digit_char :: "nat \<Rightarrow> char" where
  "digit_char d = ''0123456789'' ! (d mod 10)"

fun str_nat :: "nat \<Rightarrow> string" where
  "str_nat n = (if n < 10 then [digit_char n] else str_nat (n div 10) @ [digit_char (n mod 10)])"

declare str_nat.simps [simp del]

definition str_int :: "int \<Rightarrow> string" where
  "str_int i = (if i < 0 then CHR ''-'' # str_nat (nat (- i)) else str_nat (nat i))"

definition fstr_int :: "int option \<Rightarrow> string" where
  \<comment> \<open>what \<open>f"{x}"\<close> prints for an \<open>Optional[int]\<close>\<close>
  "fstr_int x = (case x of None \<Rightarrow> ''None'' | Some i \<Rightarrow> str_int i)"

subsection \<open>List slicing \<open>xs[a:b]\<close>\<close>

text \<open>
  Python never raises on a slice: a negative bound counts from the end, and every bound
  is clamped to \<open>0..len(xs)\<close>. A lower bound at or past the upper one gives \<open>[]\<close>.
\<close>

definition slice_index :: "nat \<Rightarrow> int \<Rightarrow> nat" where
  "slice_index n i = (if i < 0 then nat (max 0 (i + int n)) else min (nat i) n)"

definition py_slice :: "'a list \<Rightarrow> int \<Rightarrow> int \<Rightarrow> 'a list" where
  "py_slice xs a b =
     (let lo = slice_index (length xs) a; hi = slice_index (length xs) b
      in take (hi - lo) (drop lo xs))"

subsection \<open>\<open>base64.b64encode\<close>\<close>

definition b64_alphabet :: string where
  "b64_alphabet = ''ABCDEFGHIJKLMNOPQRSTUVWXYZabcdefghijklmnopqrstuvwxyz0123456789+/''"

definition b64_char :: "nat \<Rightarrow> char" where
  "b64_char i = b64_alphabet ! (i mod 64)"

fun b64encode :: "bytes \<Rightarrow> string" where
  "b64encode [] = []"
| "b64encode [a] =
     (let n = unat a * 65536
      in [b64_char (n div 262144), b64_char (n div 4096), CHR ''='', CHR ''=''])"
| "b64encode [a, b] =
     (let n = unat a * 65536 + unat b * 256
      in [b64_char (n div 262144), b64_char (n div 4096), b64_char (n div 64), CHR ''=''])"
| "b64encode (a # b # c # rest) =
     (let n = unat a * 65536 + unat b * 256 + unat c
      in [b64_char (n div 262144), b64_char (n div 4096), b64_char (n div 64), b64_char n]
         @ b64encode rest)"

section \<open>Configuration options\<close>

record DocumentDataExtractorOptions =
  system_prompt :: string
  extraction_prompt :: string
  page_start :: "int option"
  page_end :: "int option"
  openai_endpoint :: string
  aiservices_endpoint :: "string option"
  deployment_name :: string
  max_tokens :: int
  temperature :: real
  top_p :: real

text \<open>
  \<open>DocumentDataExtractorOptions.__init__\<close> (source lines 24 to 46). The last three
  parameters have defaults (\<open>4096\<close>, \<open>0.1\<close>, \<open>0.1\<close>); an argument left out is \<open>None\<close>
  here. The two floats are only stored and passed on, never computed with: they are
  reals, and the literal \<open>0.1\<close> is \<open>1 / 10\<close>.
\<close>

definition DocumentDataExtractorOptions_init ::
  "string \<Rightarrow> int option \<Rightarrow> int option \<Rightarrow> string option \<Rightarrow> string \<Rightarrow> string \<Rightarrow>
   int option \<Rightarrow> real option \<Rightarrow> real option \<Rightarrow> DocumentDataExtractorOptions" where
  "DocumentDataExtractorOptions_init prompt pstart pend aiservices openai deployment
       max_tokens_arg temperature_arg top_p_arg =
     \<lparr> system_prompt = ''You are an AI assistant that extracts data from documents.'',
       extraction_prompt = prompt,
       page_start = pstart,
       page_end = pend,
       openai_endpoint = openai,
       aiservices_endpoint = aiservices,
       deployment_name = deployment,
       max_tokens = (case max_tokens_arg of None \<Rightarrow> 4096 | Some m \<Rightarrow> m),
       temperature = (case temperature_arg of None \<Rightarrow> 1 / 10 | Some t \<Rightarrow> t),
       top_p = (case top_p_arg of None \<Rightarrow> 1 / 10 | Some p \<Rightarrow> p) \<rparr>"

section \<open>Requests, responses and the external collaborators\<close>

datatype DocumentContentFormat = TEXT | MARKDOWN

text \<open>The keyword arguments of \<open>begin_analyze_document\<close>.\<close>

record analyze_request =
  model_id :: string
  body :: bytes
  pages :: "string option"
  output_content_format :: DocumentContentFormat
  content_type :: string

text \<open>
  \<open>AnalyzeResult\<close> of the layout service: the markdown text, and the recognised words
  with their OCR confidence (read only by the layout confidence evaluator).
\<close>

record AnalyzeResult =
  content :: string
  ocr_words :: "(string \<times> real) list"

text \<open>The parts of the user turn: \<open>{"type": "text", ...}\<close> and \<open>{"type": "image_url", ...}\<close>.\<close>

datatype content_part = TextPart string | ImageUrlPart string

datatype message_content = Plain string | Parts "content_part list"

record chat_message =
  role :: string
  message_content :: message_content

text \<open>The keyword arguments of \<open>client.beta.chat.completions.parse\<close>.\<close>

record 'fmt chat_request =
  arg_model :: string
  arg_messages :: "chat_message list"
  arg_response_format :: 'fmt
  arg_max_tokens :: int
  arg_temperature :: real
  arg_top_p :: real
  arg_logprobs :: bool

record openai_client =
  api_version :: string
  azure_endpoint :: string

text \<open>A completion: its choices, each with the parsed object and the token log-probabilities.\<close>

record 'obj choice =
  message_parsed :: "'obj option"
  logprobs_content :: "(string \<times> real) list"

record 'obj completion =
  choices :: "'obj choice list"

text \<open>What \<open>model_dump()\<close> returns: a dictionary of plain Python values.\<close>

datatype py_value =
    PyNone | PyBool bool | PyInt int | PyFloat real | PyStr string
  | PyList "py_value list" | PyDict "(string \<times> py_value) list"

text \<open>
  Modelled from the spec: the confidence map of \<open>shared.confidence\<close> (not among the
  sources), a dictionary from field paths and the reserved overall key to confidences.
  An association list, read with \<open>map_of\<close>.
\<close>

type_synonym confidence_map = "(string \<times> real) list"

text \<open>
  Modelled from the spec: \<open>ConfidenceResult\<close> of \<open>shared.confidence.confidence_result\<close>
  (not among the sources), the container \<open>{data, confidence_scores, overall_confidence}\<close>.
\<close>

record 'obj ConfidenceResult =
  data :: "'obj option"
  confidence_scores :: confidence_map
  overall_confidence :: real

text \<open>
  Everything \<open>from_bytes\<close> calls outside this file is a parameter: the layout service
  (\<open>begin_analyze_document\<close> with \<open>poller.result()\<close>), \<open>pdf2image.convert_from_bytes\<close>,
  \<open>page.save(..., format='PNG')\<close>, the chat completion, pydantic's \<open>model_dump\<close>, the two
  confidence evaluators, the merger and the reserved key of \<open>shared.confidence\<close>.
  The three calls that reach a service or parse a document may raise; the others are
  taken to return.
\<close>

record ('page, 'fmt, 'obj) services =
  begin_analyze_document :: "string \<Rightarrow> analyze_request \<Rightarrow> error + AnalyzeResult"
  convert_from_bytes :: "bytes \<Rightarrow> error + 'page list"
  save_png :: "'page \<Rightarrow> bytes"
  chat_completions_parse :: "openai_client \<Rightarrow> 'fmt chat_request \<Rightarrow> error + 'obj completion"
  model_dump :: "'obj \<Rightarrow> py_value"
  evaluate_confidence_openai :: "py_value \<Rightarrow> 'obj choice \<Rightarrow> confidence_map"
  evaluate_confidence_di :: "py_value \<Rightarrow> AnalyzeResult \<Rightarrow> confidence_map"
  merge_confidence_values :: "confidence_map \<Rightarrow> confidence_map \<Rightarrow> confidence_map"
  OVERALL_CONFIDENCE_KEY :: string

text \<open>The requests that leave the process, in the order they are sent.\<close>

datatype 'fmt call =
    LayoutCall string analyze_request
  | ChatCall openai_client "'fmt chat_request"

subsection \<open>Sequencing: a log of requests and a result or an exception\<close>

type_synonym ('fmt, 'a) run = "'fmt call list \<times> (error + 'a)"

definition ret :: "'a \<Rightarrow> ('fmt, 'a) run" where
  "ret x = ([], Inr x)"

definition lift :: "error + 'a \<Rightarrow> ('fmt, 'a) run" where
  "lift r = ([], r)"

definition send :: "'fmt call \<Rightarrow> error + 'a \<Rightarrow> ('fmt, 'a) run" where
  "send c r = ([c], r)"

definition bindT :: "('fmt, 'a) run \<Rightarrow> ('a \<Rightarrow> ('fmt, 'b) run) \<Rightarrow> ('fmt, 'b) run" where
  "bindT m f =
     (case m of
        (t, Inl e) \<Rightarrow> (t, Inl e)
      | (t, Inr x) \<Rightarrow> (case f x of (t', r) \<Rightarrow> (t @ t', r)))"

section \<open>The extractor\<close>

text \<open>
  \<open>__get_openai_client__\<close> (lines 159 to 168) and \<open>__get_document_intelligence_client__\<close>
  (lines 170 to 179). A client is represented by what the options put into it; the
  credential is outside the model. There is no layout client when the endpoint is
  \<open>None\<close> or empty (\<open>if not options.aiservices_endpoint: return None\<close>).
\<close>

definition get_openai_client :: "DocumentDataExtractorOptions \<Rightarrow> openai_client" where
  "get_openai_client options =
     \<lparr> api_version = ''2024-12-01-preview'', azure_endpoint = openai_endpoint options \<rparr>"

definition get_document_intelligence_client :: "DocumentDataExtractorOptions \<Rightarrow> string option" where
  "get_document_intelligence_client options =
     (if \<not> truthy_str (aiservices_endpoint options) then None
      else aiservices_endpoint options)"

text \<open>
  \<open>__get_document_image_uris__\<close> (lines 181 to 200): rasterise the whole document,
  slice when \<open>page_start and page_end\<close> holds (both present and not 0), and encode each
  page as a PNG data URI.
\<close>

definition image_uri :: "('page, 'fmt, 'obj) services \<Rightarrow> 'page \<Rightarrow> string" where
  "image_uri sv page = ''data:image/png;base64,'' @ b64encode (save_png sv page)"

definition get_document_image_uris ::
  "('page, 'fmt, 'obj) services \<Rightarrow> bytes \<Rightarrow> int option \<Rightarrow> int option \<Rightarrow> error + string list" where
  "get_document_image_uris sv document_bytes pstart pend =
     (case convert_from_bytes sv document_bytes of
        Inl e \<Rightarrow> Inl e
      | Inr all_pages \<Rightarrow>
          Inr (map (image_uri sv)
            (case (pstart, pend) of
               (Some s, Some e) \<Rightarrow>
                 if s \<noteq> 0 \<and> e \<noteq> 0 then py_slice all_pages (s - 1) e else all_pages
             | _ \<Rightarrow> all_pages)))"

text \<open>\<open>xs[0]\<close> and \<open>d[k]\<close>, with the exceptions Python raises.\<close>

definition index0 :: "'a list \<Rightarrow> error + 'a" where
  "index0 xs = (case xs of [] \<Rightarrow> Inl IndexError | x # _ \<Rightarrow> Inr x)"

definition dict_get :: "confidence_map \<Rightarrow> string \<Rightarrow> error + real" where
  "dict_get d k = (case map_of d k of None \<Rightarrow> Inl (KeyError k) | Some v \<Rightarrow> Inr v)"

text \<open>
  \<open>from_bytes\<close> (lines 60 to 157), statement by statement: the clients and the page range
  (68 to 74), the layout call (77 to 88), the page images (90 to 91), the user content and
  the chat completion (93 to 131), the parsed object and the two confidence maps
  (133 to 151), and the result (153 to 157).
\<close>

definition from_bytes ::
  "('page, 'fmt, 'obj) services \<Rightarrow> bytes \<Rightarrow> 'fmt \<Rightarrow> DocumentDataExtractorOptions \<Rightarrow>
   ('fmt, 'obj ConfidenceResult) run" where
  "from_bytes sv document_bytes response_format options =
     (let client = get_openai_client options;
          di_client = get_document_intelligence_client options;
          page_range =
            (if truthy_int (page_start options) \<and> truthy_int (page_end options)
             then Some (fstr_int (page_start options) @ ''-'' @ fstr_int (page_end options))
             else None)
      in
      bindT
        (case di_client of
           Some dc \<Rightarrow>
             (let request =
                    \<lparr> model_id = ''prebuilt-layout'',
                      body = document_bytes,
                      pages = page_range,
                      output_content_format = MARKDOWN,
                      content_type = ''application/pdf'' \<rparr>
              in bindT (send (LayoutCall dc request) (begin_analyze_document sv dc request))
                   (\<lambda>result. ret (Some result, Some (content result))))
         | None \<Rightarrow> ret (None, None))
      (\<lambda>(result, document_markdown).
      bindT
        (lift (get_document_image_uris sv document_bytes (page_start options) (page_end options)))
      (\<lambda>image_uris.
      let user_content =
            [TextPart (extraction_prompt options)]
            @ (case document_markdown of
                 Some md \<Rightarrow> if md \<noteq> [] then [TextPart md] else []
               | None \<Rightarrow> [])
            @ map ImageUrlPart image_uris;
          request =
            \<lparr> arg_model = deployment_name options,
              arg_messages =
                [\<lparr> role = ''system'', message_content = Plain (system_prompt options) \<rparr>,
                 \<lparr> role = ''user'', message_content = Parts user_content \<rparr>],
              arg_response_format = response_format,
              arg_max_tokens = 4096,
              arg_temperature = 1 / 10,
              arg_top_p = 1 / 10,
              arg_logprobs = True \<rparr>
      in
      bindT (send (ChatCall client request) (chat_completions_parse sv client request))
      (\<lambda>completion.
      bindT (lift (index0 (choices completion)))
      (\<lambda>choice0.
      bindT
        (lift (case message_parsed choice0 of
                 None \<Rightarrow> Inl AttributeError
               | Some obj \<Rightarrow> Inr obj))
      (\<lambda>response_obj.
      let response_obj_dict = model_dump sv response_obj;
          confidence_openai = evaluate_confidence_openai sv response_obj_dict choice0
      in
      bindT
        (lift (case di_client of
                 Some dc \<Rightarrow>
                   (case result of
                      Some res \<Rightarrow>
                        Inr (merge_confidence_values sv
                               (evaluate_confidence_di sv response_obj_dict res)
                               confidence_openai)
                    | None \<Rightarrow> Inl UnboundLocalError)
               | None \<Rightarrow> Inr confidence_openai))
      (\<lambda>confidence.
      bindT (lift (dict_get confidence (OVERALL_CONFIDENCE_KEY sv)))
      (\<lambda>overall.
      ret \<lparr> data = Some response_obj,
            confidence_scores = confidence,
            overall_confidence = overall \<rparr>))))))))"

section \<open>The stages of \<open>from_bytes\<close>\<close>

text \<open>
  Names for the pieces of \<open>from_bytes\<close>, used to state what it does stage by stage:
  the layout request (source lines 71 to 84), the extraction request (lines 93 to 131),
  the result computed from a completion (lines 133 to 157) and the part of the run after
  the layout stage. Lemmas \<open>from_bytes_without_client\<close> and \<open>from_bytes_with_client\<close>
  prove that \<open>from_bytes\<close> is their composition.
\<close>

definition layout_request :: "bytes \<Rightarrow> DocumentDataExtractorOptions \<Rightarrow> analyze_request" where
  "layout_request document_bytes options =
     \<lparr> model_id = ''prebuilt-layout'',
       body = document_bytes,
       pages =
         (if truthy_int (page_start options) \<and> truthy_int (page_end options)
          then Some (fstr_int (page_start options) @ ''-'' @ fstr_int (page_end options))
          else None),
       output_content_format = MARKDOWN,
       content_type = ''application/pdf'' \<rparr>"

definition markdown_part :: "string option \<Rightarrow> content_part list" where
  "markdown_part document_markdown =
     (case document_markdown of
        Some md \<Rightarrow> if md \<noteq> [] then [TextPart md] else []
      | None \<Rightarrow> [])"

definition extraction_request ::
  "'fmt \<Rightarrow> DocumentDataExtractorOptions \<Rightarrow> string option \<Rightarrow> string list \<Rightarrow> 'fmt chat_request" where
  "extraction_request response_format options document_markdown image_uris =
     \<lparr> arg_model = deployment_name options,
       arg_messages =
         [\<lparr> role = ''system'', message_content = Plain (system_prompt options) \<rparr>,
          \<lparr> role = ''user'',
            message_content =
              Parts ([TextPart (extraction_prompt options)]
                     @ markdown_part document_markdown
                     @ map ImageUrlPart image_uris) \<rparr>],
       arg_response_format = response_format,
       arg_max_tokens = 4096,
       arg_temperature = 1 / 10,
       arg_top_p = 1 / 10,
       arg_logprobs = True \<rparr>"

definition confidence_result ::
  "('page, 'fmt, 'obj) services \<Rightarrow> AnalyzeResult option \<Rightarrow> 'obj completion \<Rightarrow>
   error + 'obj ConfidenceResult" where
  "confidence_result sv result completion =
     (case choices completion of
        [] \<Rightarrow> Inl IndexError
      | choice0 # _ \<Rightarrow>
          (case message_parsed choice0 of
             None \<Rightarrow> Inl AttributeError
           | Some response_obj \<Rightarrow>
               (let confidence_openai =
                      evaluate_confidence_openai sv (model_dump sv response_obj) choice0;
                    confidence =
                      (case result of
                         None \<Rightarrow> confidence_openai
                       | Some res \<Rightarrow>
                           merge_confidence_values sv
                             (evaluate_confidence_di sv (model_dump sv response_obj) res)
                             confidence_openai)
                in case map_of confidence (OVERALL_CONFIDENCE_KEY sv) of
                     None \<Rightarrow> Inl (KeyError (OVERALL_CONFIDENCE_KEY sv))
                   | Some overall \<Rightarrow>
                       Inr \<lparr> data = Some response_obj,
                             confidence_scores = confidence,
                             overall_confidence = overall \<rparr>)))"

definition run_extraction ::
  "('page, 'fmt, 'obj) services \<Rightarrow> bytes \<Rightarrow> 'fmt \<Rightarrow> DocumentDataExtractorOptions \<Rightarrow>
   AnalyzeResult option \<Rightarrow> ('fmt, 'obj ConfidenceResult) run" where
  "run_extraction sv document_bytes response_format options result =
     (case get_document_image_uris sv document_bytes (page_start options) (page_end options) of
        Inl e \<Rightarrow> ([], Inl e)
      | Inr image_uris \<Rightarrow>
          (let request =
                 extraction_request response_format options (map_option content result) image_uris
           in ([ChatCall (get_openai_client options) request],
               case chat_completions_parse sv (get_openai_client options) request of
                 Inl e \<Rightarrow> Inl e
               | Inr completion \<Rightarrow> confidence_result sv result completion)))"

section \<open>Reading the log of requests\<close>

fun layout_requests :: "'fmt call list \<Rightarrow> analyze_request list" where
  "layout_requests [] = []"
| "layout_requests (LayoutCall dc rq # cs) = rq # layout_requests cs"
| "layout_requests (ChatCall c rq # cs) = layout_requests cs"

fun chat_requests :: "'fmt call list \<Rightarrow> 'fmt chat_request list" where
  "chat_requests [] = []"
| "chat_requests (LayoutCall dc rq # cs) = chat_requests cs"
| "chat_requests (ChatCall c rq # cs) = rq # chat_requests cs"

text \<open>The content list of the user turn of a request, and the image URLs among its parts.\<close>

definition user_parts :: "'fmt chat_request \<Rightarrow> content_part list" where
  "user_parts rq =
     concat (map (\<lambda>m. if role m = ''user''
                       then (case message_content m of Parts ps \<Rightarrow> ps | Plain s \<Rightarrow> [TextPart s])
                       else [])
                 (arg_messages rq))"

fun image_urls :: "content_part list \<Rightarrow> string list" where
  "image_urls [] = []"
| "image_urls (ImageUrlPart u # ps) = u # image_urls ps"
| "image_urls (TextPart s # ps) = image_urls ps"

text \<open>
  A confidence map is well formed for a reserved key when the key is present and every
  value lies in \<open>[0, 1]\<close>.
\<close>

definition unit_interval :: "string \<times> real \<Rightarrow> bool" where
  "unit_interval kv = (0 \<le> snd kv \<and> snd kv \<le> 1)"

definition well_formed_map :: "string \<Rightarrow> confidence_map \<Rightarrow> bool" where
  "well_formed_map overall m = (map_of m overall \<noteq> None \<and> list_all unit_interval m)"

section \<open>Concrete collaborators for evaluating the extractor\<close>

text \<open>
  A document whose every byte is one page; a layout service that times out at one
  endpoint and answers elsewhere; a model that always returns one parsed choice; a
  merger that averages the values two maps share.
\<close>

definition demo_merge :: "confidence_map \<Rightarrow> confidence_map \<Rightarrow> confidence_map" where
  "demo_merge a b =
     map (\<lambda>kv. (fst kv, case map_of b (fst kv) of None \<Rightarrow> snd kv | Some w \<Rightarrow> (snd kv + w) / 2)) a"

definition demo_services :: "(nat, string, string) services" where
  "demo_services =
     \<lparr> begin_analyze_document =
         (\<lambda>ep rq. if ep = ''https://down.example'' then Inl (ExternalError ''timeout'')
                   else Inr \<lparr> content = ''# Invoice'', ocr_words = [(''INV-100'', 42 / 100)] \<rparr>),
       convert_from_bytes =
         (\<lambda>b. if b = [] then Inl (ExternalError ''no pages'') else Inr (map unat b)),
       save_png = (\<lambda>p. [of_nat p]),
       chat_completions_parse =
         (\<lambda>c rq. Inr \<lparr> choices = [\<lparr> message_parsed = Some ''INV-100'',
                                      logprobs_content = [(''INV-100'', 0)] \<rparr>] \<rparr>),
       model_dump = (\<lambda>obj. PyDict [(''invoice_id'', PyStr obj)]),
       evaluate_confidence_openai = (\<lambda>d ch. [(''invoice_id'', 1), (''_overall'', 1)]),
       evaluate_confidence_di = (\<lambda>d ar. [(''invoice_id'', 42 / 100), (''_overall'', 42 / 100)]),
       merge_confidence_values = demo_merge,
       OVERALL_CONFIDENCE_KEY = ''_overall'' \<rparr>"

definition demo_document :: bytes where
  "demo_document = [1, 2, 3, 4, 5]"

definition demo_options ::
  "int option \<Rightarrow> int option \<Rightarrow> string option \<Rightarrow> DocumentDataExtractorOptions" where
  "demo_options pstart pend aiservices =
     DocumentDataExtractorOptions_init ''Extract the invoice.'' pstart pend aiservices
       ''https://openai.example'' ''gpt-4o'' None None None"

section \<open>Properties\<close>

subsection \<open>Sequencing\<close>

lemma image_urls_append: "image_urls (xs @ ys) = image_urls xs @ image_urls ys"
  by (induction xs rule: image_urls.induct) simp_all

lemma bindT_ret: "bindT (ret x) f = f x"
  by (simp add: bindT_def ret_def split: prod.splits)

lemma bindT_lift: "bindT (lift r) f = (case r of Inl e \<Rightarrow> ([], Inl e) | Inr x \<Rightarrow> f x)"
  by (simp add: bindT_def lift_def split: prod.splits sum.splits)

lemma bindT_send:
  "bindT (send c r) f = (case r of Inl e \<Rightarrow> ([c], Inl e) | Inr x \<Rightarrow> (c # fst (f x), snd (f x)))"
  by (simp add: bindT_def send_def split: prod.splits sum.splits)

lemma bindT_Inl: "bindT (t, Inl e) f = (t, Inl e)"
  by (simp add: bindT_def)

lemma bindT_Inr: "bindT (t, Inr x) f = (t @ fst (f x), snd (f x))"
  by (simp add: bindT_def split: prod.splits)

lemma run_simps:
  "fst (ret x) = []" "snd (ret x) = Inr x"
  "fst (lift r) = []" "snd (lift r) = r"
  "fst (send c r) = [c]" "snd (send c r) = r"
  by (simp_all add: ret_def lift_def send_def)

lemmas bind_simps = bindT_ret bindT_lift bindT_send bindT_Inl bindT_Inr run_simps Let_def

subsection \<open>\<open>from_bytes\<close> stage by stage\<close>

lemma from_bytes_without_client:
  assumes "get_document_intelligence_client options = None"
  shows "from_bytes sv document_bytes response_format options =
           run_extraction sv document_bytes response_format options None"
proof (cases "get_document_image_uris sv document_bytes (page_start options) (page_end options)")
  case (Inl e)
  then show ?thesis
    using assms by (simp add: from_bytes_def run_extraction_def bindT_ret bindT_lift)
next
  case (Inr uris)
  show ?thesis
  proof (cases "chat_completions_parse sv (get_openai_client options)
                  (extraction_request response_format options None uris)")
    case (Inl e)
    then show ?thesis
      using assms Inr
      by (simp add: from_bytes_def run_extraction_def bindT_ret bindT_lift bindT_send
          extraction_request_def markdown_part_def)
  next
    case Inr2: (Inr completion)
    have "from_bytes sv document_bytes response_format options =
            ([ChatCall (get_openai_client options)
                (extraction_request response_format options None uris)],
             confidence_result sv None completion)"
      unfolding from_bytes_def Let_def
      using assms Inr Inr2
      apply (simp add: bindT_ret bindT_lift bindT_send extraction_request_def markdown_part_def)
      apply (simp add: confidence_result_def index0_def dict_get_def bindT_lift ret_def
          split: list.split option.split)
      done
    then show ?thesis
      using Inr Inr2 by (simp add: run_extraction_def)
  qed
qed


lemma from_bytes_with_client:
  assumes "get_document_intelligence_client options = Some dc"
  shows "from_bytes sv document_bytes response_format options =
           (case begin_analyze_document sv dc (layout_request document_bytes options) of
              Inl e \<Rightarrow> ([LayoutCall dc (layout_request document_bytes options)], Inl e)
            | Inr res \<Rightarrow>
                (LayoutCall dc (layout_request document_bytes options)
                   # fst (run_extraction sv document_bytes response_format options (Some res)),
                 snd (run_extraction sv document_bytes response_format options (Some res))))"
proof (cases "begin_analyze_document sv dc (layout_request document_bytes options)")
  case (Inl e)
  then show ?thesis
    using assms
    by (simp add: from_bytes_def layout_request_def bind_simps)
next
  case layout: (Inr res)
  show ?thesis
  proof (cases "get_document_image_uris sv document_bytes (page_start options) (page_end options)")
    case (Inl e)
    then show ?thesis
      using assms layout
      by (simp add: from_bytes_def layout_request_def run_extraction_def
          bind_simps)
  next
    case (Inr uris)
    show ?thesis
    proof (cases "chat_completions_parse sv (get_openai_client options)
                    (extraction_request response_format options (Some (content res)) uris)")
      case (Inl e)
      then show ?thesis
        using assms layout Inr
        by (simp add: from_bytes_def layout_request_def run_extraction_def
            bind_simps extraction_request_def markdown_part_def)
    next
      case parsed: (Inr completion)
      have "from_bytes sv document_bytes response_format options =
              ([LayoutCall dc (layout_request document_bytes options),
                ChatCall (get_openai_client options)
                  (extraction_request response_format options (Some (content res)) uris)],
               confidence_result sv (Some res) completion)"
        unfolding from_bytes_def Let_def
        using assms layout Inr parsed
        apply (simp add: bind_simps layout_request_def
            extraction_request_def markdown_part_def)
        apply (simp add: confidence_result_def index0_def dict_get_def bind_simps ret_def
            split: list.split option.split)
        done
      then show ?thesis
        using layout Inr parsed by (simp add: run_extraction_def)
    qed
  qed
qed

subsection \<open>The requests \<open>from_bytes\<close> sends\<close>

lemma client_None_iff:
  "get_document_intelligence_client options = None \<longleftrightarrow> \<not> truthy_str (aiservices_endpoint options)"
  by (simp add: get_document_intelligence_client_def truthy_str_def split: option.splits)

lemma layout_requests_run_extraction:
  "layout_requests (fst (run_extraction sv doc fmt options result)) = []"
  by (simp add: run_extraction_def Let_def split: sum.splits)

lemma chat_requests_run_extraction:
  "chat_requests (fst (run_extraction sv doc fmt options result)) =
     (case get_document_image_uris sv doc (page_start options) (page_end options) of
        Inl e \<Rightarrow> []
      | Inr uris \<Rightarrow> [extraction_request fmt options (map_option content result) uris])"
  by (simp add: run_extraction_def Let_def split: sum.splits)

lemma layout_requests_from_bytes:
  "layout_requests (fst (from_bytes sv doc fmt options)) =
     (case get_document_intelligence_client options of
        None \<Rightarrow> []
      | Some dc \<Rightarrow> [layout_request doc options])"
  by (simp add: from_bytes_without_client from_bytes_with_client layout_requests_run_extraction
      split: option.splits sum.splits)

lemma chat_requests_from_bytes:
  "chat_requests (fst (from_bytes sv doc fmt options)) =
     (case get_document_image_uris sv doc (page_start options) (page_end options) of
        Inl e \<Rightarrow> []
      | Inr uris \<Rightarrow>
          (case get_document_intelligence_client options of
             None \<Rightarrow> [extraction_request fmt options None uris]
           | Some dc \<Rightarrow>
               (case begin_analyze_document sv dc (layout_request doc options) of
                  Inl e \<Rightarrow> []
                | Inr res \<Rightarrow> [extraction_request fmt options (Some (content res)) uris])))"
proof (cases "get_document_intelligence_client options")
  case None
  then show ?thesis
    by (simp add: from_bytes_without_client chat_requests_run_extraction split: sum.splits)
next
  case (Some dc)
  then show ?thesis
    by (cases "begin_analyze_document sv dc (layout_request doc options)")
      (simp_all add: from_bytes_with_client chat_requests_run_extraction split: sum.splits)
qed

subsection \<open>Evaluation on the concrete collaborators\<close>

lemmas demo_defs =
  demo_services_def demo_options_def demo_document_def DocumentDataExtractorOptions_init_def
  demo_merge_def get_openai_client_def get_document_intelligence_client_def truthy_str_def
  truthy_int_def get_document_image_uris_def image_uri_def py_slice_def slice_index_def
  fstr_int_def b64_char_def b64_alphabet_def

lemmas stage_defs =
  run_extraction_def confidence_result_def extraction_request_def layout_request_def
  markdown_part_def

lemma demo_client:
  "get_document_intelligence_client (demo_options ps pe None) = None"
  "ep \<noteq> [] \<Longrightarrow> get_document_intelligence_client (demo_options ps pe (Some ep)) = Some ep"
  by (simp_all add: demo_defs)

lemma demo_run_llm_only:
  "from_bytes demo_services demo_document ''Invoice'' (demo_options (Some 2) (Some 3) None) =
     ([ChatCall
         \<lparr> api_version = ''2024-12-01-preview'', azure_endpoint = ''https://openai.example'' \<rparr>
         \<lparr> arg_model = ''gpt-4o'',
           arg_messages =
             [\<lparr> role = ''system'',
                message_content =
                  Plain ''You are an AI assistant that extracts data from documents.'' \<rparr>,
              \<lparr> role = ''user'',
                message_content =
                  Parts [TextPart ''Extract the invoice.'',
                         ImageUrlPart ''data:image/png;base64,Ag=='',
                         ImageUrlPart ''data:image/png;base64,Aw==''] \<rparr>],
           arg_response_format = ''Invoice'', arg_max_tokens = 4096,
           arg_temperature = 1 / 10, arg_top_p = 1 / 10, arg_logprobs = True \<rparr>],
      Inr \<lparr> data = Some ''INV-100'',
            confidence_scores = [(''invoice_id'', 1), (''_overall'', 1)],
            overall_confidence = 1 \<rparr>)"
  by (simp add: from_bytes_without_client demo_client) (simp add: stage_defs demo_defs)

lemma demo_run_with_layout:
  "from_bytes demo_services demo_document ''Invoice''
     (demo_options (Some 2) (Some 3) (Some ''https://di.example'')) =
     ([LayoutCall ''https://di.example''
         \<lparr> model_id = ''prebuilt-layout'', body = [1, 2, 3, 4, 5], pages = Some ''2-3'',
           output_content_format = MARKDOWN, content_type = ''application/pdf'' \<rparr>,
       ChatCall
         \<lparr> api_version = ''2024-12-01-preview'', azure_endpoint = ''https://openai.example'' \<rparr>
         \<lparr> arg_model = ''gpt-4o'',
           arg_messages =
             [\<lparr> role = ''system'',
                message_content =
                  Plain ''You are an AI assistant that extracts data from documents.'' \<rparr>,
              \<lparr> role = ''user'',
                message_content =
                  Parts [TextPart ''Extract the invoice.'', TextPart ''# Invoice'',
                         ImageUrlPart ''data:image/png;base64,Ag=='',
                         ImageUrlPart ''data:image/png;base64,Aw==''] \<rparr>],
           arg_response_format = ''Invoice'', arg_max_tokens = 4096,
           arg_temperature = 1 / 10, arg_top_p = 1 / 10, arg_logprobs = True \<rparr>],
      Inr \<lparr> data = Some ''INV-100'',
            confidence_scores = [(''invoice_id'', 71 / 100), (''_overall'', 71 / 100)],
            overall_confidence = 71 / 100 \<rparr>)"
  by (simp add: from_bytes_with_client demo_client)
    (simp add: stage_defs demo_defs str_int_def str_nat.simps digit_char_def)

lemma demo_run_layout_down:
  "from_bytes demo_services demo_document ''Invoice''
     (demo_options ps pe (Some ''https://down.example'')) =
     ([LayoutCall ''https://down.example'' (layout_request demo_document
          (demo_options ps pe (Some ''https://down.example'')))],
      Inl (ExternalError ''timeout''))"
  by (simp add: from_bytes_with_client demo_client) (simp add: demo_services_def)

lemma demo_merge_well_formed:
  assumes "well_formed_map k a" and "well_formed_map k b"
  shows "well_formed_map k (demo_merge a b)"
proof -
  have key: "map_of (demo_merge a b) k \<noteq> None"
  proof -
    have "k \<in> fst ` set a"
      using assms(1) by (simp add: well_formed_map_def map_of_eq_None_iff)
    then have "k \<in> fst ` set (demo_merge a b)"
      by (force simp: demo_merge_def)
    then show ?thesis
      by (simp add: map_of_eq_None_iff)
  qed
  have "unit_interval (fst kv, case map_of b (fst kv) of None \<Rightarrow> snd kv | Some w \<Rightarrow> (snd kv + w) / 2)"
    if "kv \<in> set a" for kv
  proof (cases "map_of b (fst kv)")
    case None
    then show ?thesis
      using assms(1) that by (auto simp: well_formed_map_def list_all_iff unit_interval_def)
  next
    case (Some w)
    then have "(fst kv, w) \<in> set b"
      by (rule map_of_SomeD)
    then have "0 \<le> w \<and> w \<le> 1"
      using assms(2) by (auto simp: well_formed_map_def list_all_iff unit_interval_def)
    moreover have "0 \<le> snd kv \<and> snd kv \<le> 1"
      using assms(1) that by (auto simp: well_formed_map_def list_all_iff unit_interval_def)
    ultimately show ?thesis
      using Some by (simp add: unit_interval_def)
  qed
  then have "list_all unit_interval (demo_merge a b)"
    by (simp add: demo_merge_def list_all_iff)
  with key show ?thesis
    by (simp add: well_formed_map_def)
qed

lemma image_urls_map_comp: "image_urls (map (ImageUrlPart \<circ> f) xs) = map f xs"
  by (induction xs) simp_all

lemma options_defaults:
  "max_tokens (DocumentDataExtractorOptions_init p s e a ep d None None None) = 4096"
  "temperature (DocumentDataExtractorOptions_init p s e a ep d None None None) = 1 / 10"
  "top_p (DocumentDataExtractorOptions_init p s e a ep d None None None) = 1 / 10"
  by (simp_all add: DocumentDataExtractorOptions_init_def)

lemma decoding_parameters_fixed:
  "list_all (\<lambda>rq. arg_max_tokens rq = 4096 \<and> arg_temperature rq = 1 / 10 \<and> arg_top_p rq = 1 / 10)
     (chat_requests (fst (from_bytes sv doc fmt options)))"
  by (simp add: chat_requests_from_bytes extraction_request_def split: sum.splits option.splits)

section \<open>The claims\<close>

text \<open>
  Claim C1. When no layout endpoint is configured (\<open>aiservices_endpoint\<close> is \<open>None\<close>) and
  \<open>from_bytes\<close> returns, the only request sent is the one to the extraction model, and
  the returned \<open>confidence_scores\<close> is exactly what the OpenAI confidence evaluator
  computed from the dumped response object and the first choice: no layout evaluation
  and no merge take part.
\<close>

theorem from_bytes_llm_only_without_endpoint:
  assumes "aiservices_endpoint options = None"
    and "from_bytes sv document_bytes response_format options = (t, Inr r)"
  shows "\<exists>rq completion ch rest obj.
           t = [ChatCall (get_openai_client options) rq] \<and>
           chat_completions_parse sv (get_openai_client options) rq = Inr completion \<and>
           choices completion = ch # rest \<and>
           message_parsed ch = Some obj \<and>
           confidence_scores r = evaluate_confidence_openai sv (model_dump sv obj) ch"
proof -
  have "get_document_intelligence_client options = None"
    using assms(1) by (simp add: client_None_iff truthy_str_def)
  then have "run_extraction sv document_bytes response_format options None = (t, Inr r)"
    using assms(2) by (simp add: from_bytes_without_client)
  then show ?thesis
    by (auto simp: run_extraction_def confidence_result_def Let_def
        split: sum.splits list.splits option.splits)
qed

text \<open>
  The run on the five-page document without an endpoint returns the evaluator's map.
\<close>

theorem from_bytes_llm_only_without_endpoint_witness:
  "aiservices_endpoint (demo_options (Some 2) (Some 3) None) = None \<and>
   snd (from_bytes demo_services demo_document ''Invoice'' (demo_options (Some 2) (Some 3) None)) =
     Inr \<lparr> data = Some ''INV-100'',
           confidence_scores = [(''invoice_id'', 1), (''_overall'', 1)],
           overall_confidence = 1 \<rparr> \<and>
   (\<exists>rq completion ch rest obj.
      fst (from_bytes demo_services demo_document ''Invoice'' (demo_options (Some 2) (Some 3) None)) =
        [ChatCall (get_openai_client (demo_options (Some 2) (Some 3) None)) rq] \<and>
      chat_completions_parse demo_services
        (get_openai_client (demo_options (Some 2) (Some 3) None)) rq = Inr completion \<and>
      choices completion = ch # rest \<and>
      message_parsed ch = Some obj \<and>
      [(''invoice_id'', 1), (''_overall'', 1)] =
        evaluate_confidence_openai demo_services (model_dump demo_services obj) ch)"
proof -
  let ?o = "demo_options (Some 2) (Some 3) None"
  let ?r = "\<lparr> data = Some ''INV-100'',
              confidence_scores = [(''invoice_id'', 1::real), (''_overall'', 1)],
              overall_confidence = 1::real \<rparr>"
  have h1: "aiservices_endpoint ?o = None"
    by (simp add: demo_defs)
  have h2: "from_bytes demo_services demo_document ''Invoice'' ?o =
              (fst (from_bytes demo_services demo_document ''Invoice'' ?o), Inr ?r)"
    by (simp add: demo_run_llm_only)
  have h3: "snd (from_bytes demo_services demo_document ''Invoice'' ?o) = Inr ?r"
    by (simp add: demo_run_llm_only)
  from from_bytes_llm_only_without_endpoint [OF h1 h2] h1 h3 show ?thesis
    by simp
qed

text \<open>
  Claim C2. The options carry \<open>max_tokens\<close>, \<open>temperature\<close> and \<open>top_p\<close>, documented
  as the decoding parameters of the request, with defaults 4096, 0.1 and 0.1
  (\<open>options_defaults\<close>). The request does not read them: with the options built for
  100 tokens, temperature 0.7 and nucleus threshold 0.9, the request that is sent still
  carries 4096, 0.1 and 0.1 (and does so for every input, \<open>decoding_parameters_fixed\<close>).
\<close>

theorem decoding_options_not_forwarded:
  "max_tokens (DocumentDataExtractorOptions_init ''Extract the invoice.'' None None None
       ''https://openai.example'' ''gpt-4o'' (Some 100) (Some (7 / 10)) (Some (9 / 10))) = 100 \<and>
   temperature (DocumentDataExtractorOptions_init ''Extract the invoice.'' None None None
       ''https://openai.example'' ''gpt-4o'' (Some 100) (Some (7 / 10)) (Some (9 / 10))) = 7 / 10 \<and>
   top_p (DocumentDataExtractorOptions_init ''Extract the invoice.'' None None None
       ''https://openai.example'' ''gpt-4o'' (Some 100) (Some (7 / 10)) (Some (9 / 10))) = 9 / 10 \<and>
   map (\<lambda>rq. (arg_max_tokens rq, arg_temperature rq, arg_top_p rq))
     (chat_requests (fst (from_bytes demo_services demo_document ''Invoice''
        (DocumentDataExtractorOptions_init ''Extract the invoice.'' None None None
           ''https://openai.example'' ''gpt-4o'' (Some 100) (Some (7 / 10)) (Some (9 / 10)))))) =
     [(4096, 1 / 10, 1 / 10)]"
  by (simp add: chat_requests_from_bytes)
    (simp add: stage_defs demo_defs)

text \<open>
  Claim C3, as the code has it. The rendering step has no range check. Once the document
  has been rasterised, a pair of page bounds never makes it fail: it returns the image
  URIs of the Python slice \<open>pages[page_start - 1 : page_end]\<close> (of all pages when a
  bound is 0). That slice is empty when \<open>1 \<le> page_end < page_start\<close>, and it stops at
  the last page when \<open>page_end\<close> is past the end of the document.
\<close>

theorem image_uris_never_fail_on_range:
  assumes "convert_from_bytes sv document_bytes = Inr ps"
  shows "get_document_image_uris sv document_bytes (Some s) (Some e) =
           Inr (map (image_uri sv) (if s \<noteq> 0 \<and> e \<noteq> 0 then py_slice ps (s - 1) e else ps))
         \<and> (1 \<le> e \<and> e < s \<longrightarrow>
              get_document_image_uris sv document_bytes (Some s) (Some e) = Inr [])
         \<and> (1 \<le> s \<and> int (length ps) \<le> e \<longrightarrow>
              get_document_image_uris sv document_bytes (Some s) (Some e) =
                Inr (map (image_uri sv) (drop (nat (s - 1)) ps)))"
  using assms
  by (auto simp: get_document_image_uris_def py_slice_def slice_index_def Let_def min_def)

text \<open>On the five-page document: bounds 3 and 2 give no page, bounds 4 and 9 give pages 4 and 5.\<close>

theorem image_uris_never_fail_on_range_witness:
  "convert_from_bytes demo_services demo_document = Inr [1, 2, 3, 4, 5] \<and>
   get_document_image_uris demo_services demo_document (Some 3) (Some 2) = Inr [] \<and>
   get_document_image_uris demo_services demo_document (Some 4) (Some 9) =
     Inr (map (image_uri demo_services) [4, 5])"
proof -
  have h: "convert_from_bytes demo_services demo_document = Inr [1, 2, 3, 4, 5]"
    by (simp add: demo_services_def demo_document_def)
  from image_uris_never_fail_on_range [OF h, of 3 2]
    image_uris_never_fail_on_range [OF h, of 4 9] h
  show ?thesis
    by (simp add: py_slice_def slice_index_def)
qed

text \<open>
  Claim C3 as stated fails: with \<open>page_start = 3 > page_end = 2\<close>, and with
  \<open>page_end = 9\<close> on five pages, the step returns a list of page images, not an error.
\<close>

theorem image_uris_counterexample:
  "get_document_image_uris demo_services demo_document (Some 3) (Some 2) = Inr [] \<and>
   get_document_image_uris demo_services demo_document (Some 4) (Some 9) =
     Inr [''data:image/png;base64,BA=='', ''data:image/png;base64,BQ=='']"
  by (simp add: demo_defs)

text \<open>
  Claim C4. When exactly one of \<open>page_start\<close> and \<open>page_end\<close> is \<open>None\<close>, the whole
  document is used. The rendering step returns the image of every page. Exactly one
  request is sent to the extraction model, with exactly those images in page order, when
  there is no layout client or the layout call returns (none is sent when the layout call
  raises). With a layout client exactly one layout request is sent, and it has no page
  range; without one, none is sent.
\<close>

theorem one_bound_uses_whole_document:
  assumes "(page_start options = None) \<noteq> (page_end options = None)"
    and "convert_from_bytes sv doc = Inr ps"
  shows "get_document_image_uris sv doc (page_start options) (page_end options) =
           Inr (map (image_uri sv) ps) \<and>
         map (\<lambda>rq. image_urls (user_parts rq)) (chat_requests (fst (from_bytes sv doc fmt options))) =
           (case get_document_intelligence_client options of
              None \<Rightarrow> [map (image_uri sv) ps]
            | Some ep \<Rightarrow>
                (case begin_analyze_document sv ep (layout_request doc options) of
                   Inl e \<Rightarrow> []
                 | Inr res \<Rightarrow> [map (image_uri sv) ps])) \<and>
         map pages (layout_requests (fst (from_bytes sv doc fmt options))) =
           (case get_document_intelligence_client options of None \<Rightarrow> [] | Some ep \<Rightarrow> [None])"
proof -
  have uris: "get_document_image_uris sv doc (page_start options) (page_end options) =
                Inr (map (image_uri sv) ps)"
    using assms by (auto simp: get_document_image_uris_def split: option.splits)
  have range: "\<not> (truthy_int (page_start options) \<and> truthy_int (page_end options))"
    using assms(1) by (auto simp: truthy_int_def split: option.splits)
  have images: "image_urls (user_parts (extraction_request fmt options md (map (image_uri sv) ps))) =
          map (image_uri sv) ps" for md
    by (simp add: user_parts_def extraction_request_def markdown_part_def image_urls_append
        image_urls_map_comp split: option.splits)
  have sent: "map (\<lambda>rq. image_urls (user_parts rq))
                (chat_requests (fst (from_bytes sv doc fmt options))) =
              (case get_document_intelligence_client options of
                 None \<Rightarrow> [map (image_uri sv) ps]
               | Some ep \<Rightarrow>
                   (case begin_analyze_document sv ep (layout_request doc options) of
                      Inl e \<Rightarrow> []
                    | Inr res \<Rightarrow> [map (image_uri sv) ps]))"
    by (simp add: chat_requests_from_bytes uris images split: option.splits sum.splits)
  have "pages (layout_request doc options) = None"
    using range by (auto simp: layout_request_def)
  then have "map pages (layout_requests (fst (from_bytes sv doc fmt options))) =
               (case get_document_intelligence_client options of None \<Rightarrow> [] | Some ep \<Rightarrow> [None])"
    by (simp add: layout_requests_from_bytes split: option.splits)
  with uris sent show ?thesis
    by simp
qed

text \<open>
  With \<open>page_start = 2\<close> alone and a layout endpoint, one layout request without a page
  range and one extraction request with all five pages are sent; with \<open>page_end = 3\<close>
  alone and no endpoint, one extraction request with all five pages is sent.
\<close>

theorem one_bound_uses_whole_document_witness:
  "page_start (demo_options (Some 2) None (Some ''https://di.example'')) = Some 2 \<and>
   page_end (demo_options (Some 2) None (Some ''https://di.example'')) = None \<and>
   page_start (demo_options None (Some 3) None) = None \<and>
   page_end (demo_options None (Some 3) None) = Some 3 \<and>
   convert_from_bytes demo_services demo_document = Inr [1, 2, 3, 4, 5] \<and>
   map (\<lambda>rq. image_urls (user_parts rq))
     (chat_requests (fst (from_bytes demo_services demo_document ''Invoice''
        (demo_options (Some 2) None (Some ''https://di.example''))))) =
     [map (image_uri demo_services) [1, 2, 3, 4, 5]] \<and>
   map pages
     (layout_requests (fst (from_bytes demo_services demo_document ''Invoice''
        (demo_options (Some 2) None (Some ''https://di.example''))))) = [None] \<and>
   map (\<lambda>rq. image_urls (user_parts rq))
     (chat_requests (fst (from_bytes demo_services demo_document ''Invoice''
        (demo_options None (Some 3) None)))) =
     [map (image_uri demo_services) [1, 2, 3, 4, 5]] \<and>
   map pages
     (layout_requests (fst (from_bytes demo_services demo_document ''Invoice''
        (demo_options None (Some 3) None)))) = []"
proof -
  let ?o = "demo_options (Some 2) None (Some ''https://di.example'')"
  let ?p = "demo_options None (Some 3) None"
  have o1: "(page_start ?o = None) \<noteq> (page_end ?o = None)"
    and p1: "(page_start ?p = None) \<noteq> (page_end ?p = None)"
    by (simp_all add: demo_defs)
  have h2: "convert_from_bytes demo_services demo_document = Inr [1, 2, 3, 4, 5]"
    by (simp add: demo_services_def demo_document_def)
  have oc: "get_document_intelligence_client ?o = Some ''https://di.example''"
    and pc: "get_document_intelligence_client ?p = None"
    by (simp_all add: demo_client)
  have up: "begin_analyze_document demo_services ''https://di.example''
              (layout_request demo_document ?o) =
            Inr \<lparr> content = ''# Invoice'', ocr_words = [(''INV-100'', 42 / 100)] \<rparr>"
    by (simp add: demo_services_def)
  from one_bound_uses_whole_document [OF o1 h2, of "''Invoice''"]
    one_bound_uses_whole_document [OF p1 h2, of "''Invoice''"]
  show ?thesis
    using h2 by (simp add: oc pc up) (simp add: demo_defs)
qed

text \<open>
  Claim C5. On a document of five pages with \<open>page_start = 2\<close> and \<open>page_end = 3\<close>, the
  rendering step returns the images of the second and the third page, in that order.
  Exactly one request is sent to the extraction model when there is no layout client or
  the layout call returns (none when the layout call raises); its image parts are exactly
  these two, in that order, and they are the last elements of the user content, after
  parts that hold no image.
\<close>

theorem pages_two_and_three_of_five:
  assumes "convert_from_bytes sv doc = Inr ps"
    and "length ps = 5"
    and "page_start options = Some 2"
    and "page_end options = Some 3"
  shows "get_document_image_uris sv doc (page_start options) (page_end options) =
           Inr [image_uri sv (ps ! 1), image_uri sv (ps ! 2)] \<and>
         map (\<lambda>rq. image_urls (user_parts rq)) (chat_requests (fst (from_bytes sv doc fmt options))) =
           (case get_document_intelligence_client options of
              None \<Rightarrow> [[image_uri sv (ps ! 1), image_uri sv (ps ! 2)]]
            | Some ep \<Rightarrow>
                (case begin_analyze_document sv ep (layout_request doc options) of
                   Inl e \<Rightarrow> []
                 | Inr res \<Rightarrow> [[image_uri sv (ps ! 1), image_uri sv (ps ! 2)]])) \<and>
         list_all
           (\<lambda>rq. \<exists>texts. user_parts rq =
                    texts @ [ImageUrlPart (image_uri sv (ps ! 1)), ImageUrlPart (image_uri sv (ps ! 2))] \<and>
                    image_urls texts = [])
           (chat_requests (fst (from_bytes sv doc fmt options)))"
proof -
  obtain a b c d e where ps: "ps = [a, b, c, d, e]"
    using assms(2) by (auto simp: eval_nat_numeral length_Suc_conv)
  have uris: "get_document_image_uris sv doc (page_start options) (page_end options) =
                Inr [image_uri sv (ps ! 1), image_uri sv (ps ! 2)]"
    using assms(1,3,4)
    by (simp add: get_document_image_uris_def py_slice_def slice_index_def ps)
  have parts: "user_parts (extraction_request fmt options md [u, v]) =
                 (TextPart (extraction_prompt options) # markdown_part md)
                 @ [ImageUrlPart u, ImageUrlPart v]" for md u v
    by (simp add: user_parts_def extraction_request_def)
  have texts: "image_urls (TextPart (extraction_prompt options) # markdown_part md) = []" for md
    by (simp add: markdown_part_def split: option.splits)
  have images: "image_urls (user_parts (extraction_request fmt options md [u, v])) = [u, v]"
    for md u v
    by (simp add: user_parts_def extraction_request_def markdown_part_def image_urls_append
        split: option.splits)
  have sent: "map (\<lambda>rq. image_urls (user_parts rq))
                (chat_requests (fst (from_bytes sv doc fmt options))) =
              (case get_document_intelligence_client options of
                 None \<Rightarrow> [[image_uri sv (ps ! 1), image_uri sv (ps ! 2)]]
               | Some ep \<Rightarrow>
                   (case begin_analyze_document sv ep (layout_request doc options) of
                      Inl e \<Rightarrow> []
                    | Inr res \<Rightarrow> [[image_uri sv (ps ! 1), image_uri sv (ps ! 2)]]))"
    by (simp add: chat_requests_from_bytes uris images split: option.splits sum.splits)
  have "\<exists>texts. user_parts (extraction_request fmt options md [u, v]) =
                  texts @ [ImageUrlPart u, ImageUrlPart v] \<and> image_urls texts = []" for md u v
    using parts [of md u v] texts [of md] by blast
  then have "list_all
           (\<lambda>rq. \<exists>texts. user_parts rq =
                    texts @ [ImageUrlPart (image_uri sv (ps ! 1)), ImageUrlPart (image_uri sv (ps ! 2))] \<and>
                    image_urls texts = [])
           (chat_requests (fst (from_bytes sv doc fmt options)))"
    by (simp add: chat_requests_from_bytes uris split: option.splits sum.splits)
  with uris sent show ?thesis
    by simp
qed

text \<open>
  The five-page document, without an endpoint and with one that answers: the one
  extraction request carries pages 2 and 3.
\<close>

theorem pages_two_and_three_of_five_witness:
  "convert_from_bytes demo_services demo_document = Inr [1, 2, 3, 4, 5] \<and>
   length [1, 2, 3, 4, 5 :: nat] = 5 \<and>
   page_start (demo_options (Some 2) (Some 3) None) = Some 2 \<and>
   page_end (demo_options (Some 2) (Some 3) None) = Some 3 \<and>
   get_document_image_uris demo_services demo_document (Some 2) (Some 3) =
     Inr [image_uri demo_services 2, image_uri demo_services 3] \<and>
   map (\<lambda>rq. image_urls (user_parts rq))
     (chat_requests (fst (from_bytes demo_services demo_document ''Invoice''
        (demo_options (Some 2) (Some 3) None)))) =
     [[image_uri demo_services 2, image_uri demo_services 3]] \<and>
   map (\<lambda>rq. image_urls (user_parts rq))
     (chat_requests (fst (from_bytes demo_services demo_document ''Invoice''
        (demo_options (Some 2) (Some 3) (Some ''https://di.example''))))) =
     [[image_uri demo_services 2, image_uri demo_services 3]]"
proof -
  let ?o = "demo_options (Some 2) (Some 3) None"
  let ?p = "demo_options (Some 2) (Some 3) (Some ''https://di.example'')"
  have h1: "convert_from_bytes demo_services demo_document = Inr [1, 2, 3, 4, 5]"
    by (simp add: demo_services_def demo_document_def)
  have h2: "length [1, 2, 3, 4, 5 :: nat] = 5"
    by simp
  have o3: "page_start ?o = Some 2" and o4: "page_end ?o = Some 3"
    and p3: "page_start ?p = Some 2" and p4: "page_end ?p = Some 3"
    by (simp_all add: demo_defs)
  have oc: "get_document_intelligence_client ?o = None"
    and pc: "get_document_intelligence_client ?p = Some ''https://di.example''"
    by (simp_all add: demo_client)
  have up: "begin_analyze_document demo_services ''https://di.example''
              (layout_request demo_document ?p) =
            Inr \<lparr> content = ''# Invoice'', ocr_words = [(''INV-100'', 42 / 100)] \<rparr>"
    by (simp add: demo_services_def)
  from pages_two_and_three_of_five [OF h1 h2 o3 o4, of "''Invoice''"]
    pages_two_and_three_of_five [OF h1 h2 p3 p4, of "''Invoice''"]
  show ?thesis
    using h1 o3 o4 by (simp add: oc pc up)
qed



text \<open>
  Claim C7, as the code has it. \<open>from_bytes\<close> has no handler around the layout call:
  with an endpoint configured, when the layout request fails with an error,
  \<open>from_bytes\<close> stops with that same error after the one layout request, returns no
  result, and sends nothing to the extraction model.
\<close>

theorem from_bytes_aborts_when_layout_fails:
  assumes "aiservices_endpoint options = Some ep"
    and "ep \<noteq> []"
    and "begin_analyze_document sv ep (layout_request doc options) = Inl e"
  shows "from_bytes sv doc fmt options = ([LayoutCall ep (layout_request doc options)], Inl e) \<and>
         chat_requests (fst (from_bytes sv doc fmt options)) = []"
proof -
  have "get_document_intelligence_client options = Some ep"
    using assms(1,2) by (simp add: get_document_intelligence_client_def truthy_str_def)
  then show ?thesis
    using assms(3) by (simp add: from_bytes_with_client)
qed

text \<open>The endpoint that times out: the run ends with the timeout after the layout request.\<close>

theorem from_bytes_aborts_when_layout_fails_witness:
  "aiservices_endpoint (demo_options (Some 2) (Some 3) (Some ''https://down.example'')) =
     Some ''https://down.example'' \<and>
   begin_analyze_document demo_services ''https://down.example''
     (layout_request demo_document (demo_options (Some 2) (Some 3) (Some ''https://down.example''))) =
     Inl (ExternalError ''timeout'') \<and>
   from_bytes demo_services demo_document ''Invoice''
     (demo_options (Some 2) (Some 3) (Some ''https://down.example'')) =
     ([LayoutCall ''https://down.example''
         (layout_request demo_document
            (demo_options (Some 2) (Some 3) (Some ''https://down.example'')))],
      Inl (ExternalError ''timeout'')) \<and>
   chat_requests (fst (from_bytes demo_services demo_document ''Invoice''
     (demo_options (Some 2) (Some 3) (Some ''https://down.example'')))) = []"
proof -
  let ?o = "demo_options (Some 2) (Some 3) (Some ''https://down.example'')"
  have h1: "aiservices_endpoint ?o = Some ''https://down.example''"
    by (simp add: demo_defs)
  have h2: "''https://down.example'' \<noteq> []"
    by simp
  have h3: "begin_analyze_document demo_services ''https://down.example''
              (layout_request demo_document ?o) = Inl (ExternalError ''timeout'')"
    by (simp add: demo_services_def)
  from from_bytes_aborts_when_layout_fails [OF h1 h2 h3, of "''Invoice''"] h1 h3 show ?thesis
    by simp
qed

text \<open>
  Claim C7 as stated fails: with an endpoint configured and a layout service that times
  out, \<open>from_bytes\<close> raises the timeout instead of returning a result from the
  model alone.
\<close>

theorem layout_failure_counterexample:
  "aiservices_endpoint (demo_options (Some 2) (Some 3) (Some ''https://down.example'')) =
     Some ''https://down.example'' \<and>
   from_bytes demo_services demo_document ''Invoice''
     (demo_options (Some 2) (Some 3) (Some ''https://down.example'')) =
     ([LayoutCall ''https://down.example''
         \<lparr> model_id = ''prebuilt-layout'', body = [1, 2, 3, 4, 5], pages = Some ''2-3'',
           output_content_format = MARKDOWN, content_type = ''application/pdf'' \<rparr>],
      Inl (ExternalError ''timeout''))"
  by (simp add: demo_run_layout_down)
    (simp add: layout_request_def demo_defs str_int_def str_nat.simps digit_char_def)



text \<open>
  Claim C9. Suppose both confidence evaluators return well-formed maps (the overall key
  present, every value in \<open>[0, 1]\<close>) and the merger returns a well-formed map on
  well-formed maps. Then whenever \<open>from_bytes\<close> returns a result, its
  \<open>confidence_scores\<close> holds the overall key, every value in it lies in \<open>[0, 1]\<close>, and
  \<open>overall_confidence\<close> is the value stored under the overall key (so it lies in
  \<open>[0, 1]\<close> too).
\<close>

theorem returned_confidence_well_formed:
  assumes openai: "\<And>d ch.
      well_formed_map (OVERALL_CONFIDENCE_KEY sv) (evaluate_confidence_openai sv d ch)"
    and di: "\<And>d ar.
      well_formed_map (OVERALL_CONFIDENCE_KEY sv) (evaluate_confidence_di sv d ar)"
    and merge: "\<And>a b.
      well_formed_map (OVERALL_CONFIDENCE_KEY sv) a \<Longrightarrow>
      well_formed_map (OVERALL_CONFIDENCE_KEY sv) b \<Longrightarrow>
      well_formed_map (OVERALL_CONFIDENCE_KEY sv) (merge_confidence_values sv a b)"
    and returns: "from_bytes sv doc fmt options = (t, Inr r)"
  shows "map_of (confidence_scores r) (OVERALL_CONFIDENCE_KEY sv) = Some (overall_confidence r) \<and>
         (\<forall>kv \<in> set (confidence_scores r). 0 \<le> snd kv \<and> snd kv \<le> 1) \<and>
         0 \<le> overall_confidence r \<and> overall_confidence r \<le> 1"
proof -
  obtain result completion where res: "confidence_result sv result completion = Inr r"
  proof (cases "get_document_intelligence_client options")
    case None
    with returns have "run_extraction sv doc fmt options None = (t, Inr r)"
      by (simp add: from_bytes_without_client)
    then show ?thesis
      using that by (auto simp: run_extraction_def Let_def split: sum.splits)
  next
    case (Some dc)
    with returns obtain res where
      "snd (run_extraction sv doc fmt options (Some res)) = Inr r"
      by (auto simp: from_bytes_with_client split: sum.splits)
    then show ?thesis
      using that by (auto simp: run_extraction_def Let_def split: sum.splits)
  qed
  then obtain ch obj where
    scores: "confidence_scores r =
               (case result of
                  None \<Rightarrow> evaluate_confidence_openai sv (model_dump sv obj) ch
                | Some ar \<Rightarrow>
                    merge_confidence_values sv
                      (evaluate_confidence_di sv (model_dump sv obj) ar)
                      (evaluate_confidence_openai sv (model_dump sv obj) ch))"
    and overall: "map_of (confidence_scores r) (OVERALL_CONFIDENCE_KEY sv) =
                    Some (overall_confidence r)"
    by (auto simp: confidence_result_def Let_def split: list.splits option.splits)
  have wf: "well_formed_map (OVERALL_CONFIDENCE_KEY sv) (confidence_scores r)"
    unfolding scores by (cases result) (simp_all add: openai di merge)
  then have in_unit: "\<forall>kv \<in> set (confidence_scores r). 0 \<le> snd kv \<and> snd kv \<le> 1"
    by (simp add: well_formed_map_def list_all_iff unit_interval_def)
  moreover have "(OVERALL_CONFIDENCE_KEY sv, overall_confidence r) \<in> set (confidence_scores r)"
    using overall by (rule map_of_SomeD)
  ultimately have "0 \<le> overall_confidence r \<and> overall_confidence r \<le> 1"
    by fastforce
  with overall in_unit show ?thesis
    by simp
qed

text \<open>The run with the layout service: the merged map averages 1 and 0.42 to 0.71.\<close>

theorem returned_confidence_well_formed_witness:
  "snd (from_bytes demo_services demo_document ''Invoice''
          (demo_options (Some 2) (Some 3) (Some ''https://di.example''))) =
     Inr \<lparr> data = Some ''INV-100'',
           confidence_scores = [(''invoice_id'', 71 / 100), (''_overall'', 71 / 100)],
           overall_confidence = 71 / 100 \<rparr> \<and>
   map_of [(''invoice_id'', 71 / 100), (''_overall'', 71 / 100 :: real)]
     (OVERALL_CONFIDENCE_KEY demo_services) = Some (71 / 100) \<and>
   list_all unit_interval [(''invoice_id'', 71 / 100), (''_overall'', 71 / 100)] \<and>
   (0 :: real) \<le> 71 / 100 \<and> (71 / 100 :: real) \<le> 1"
proof -
  let ?o = "demo_options (Some 2) (Some 3) (Some ''https://di.example'')"
  let ?r = "\<lparr> data = Some ''INV-100'',
              confidence_scores = [(''invoice_id'', 71 / 100 :: real), (''_overall'', 71 / 100)],
              overall_confidence = 71 / 100 :: real \<rparr>"
  have h1: "well_formed_map (OVERALL_CONFIDENCE_KEY demo_services)
              (evaluate_confidence_openai demo_services d ch)" for d ch
    by (simp add: demo_services_def well_formed_map_def unit_interval_def)
  have h2: "well_formed_map (OVERALL_CONFIDENCE_KEY demo_services)
              (evaluate_confidence_di demo_services d ar)" for d ar
    by (simp add: demo_services_def well_formed_map_def unit_interval_def)
  have h3: "well_formed_map (OVERALL_CONFIDENCE_KEY demo_services)
              (merge_confidence_values demo_services a b)"
    if "well_formed_map (OVERALL_CONFIDENCE_KEY demo_services) a"
      and "well_formed_map (OVERALL_CONFIDENCE_KEY demo_services) b" for a b
    using that demo_merge_well_formed [of "OVERALL_CONFIDENCE_KEY demo_services" a b]
    by (simp add: demo_services_def)
  have h4: "from_bytes demo_services demo_document ''Invoice'' ?o =
              (fst (from_bytes demo_services demo_document ''Invoice'' ?o), Inr ?r)"
    by (simp add: demo_run_with_layout)
  from returned_confidence_well_formed [of demo_services, OF h1 h2 h3 h4]
  have "map_of (confidence_scores ?r) (OVERALL_CONFIDENCE_KEY demo_services) =
          Some (overall_confidence ?r)"
    and "\<forall>kv \<in> set (confidence_scores ?r). 0 \<le> snd kv \<and> snd kv \<le> 1"
    and "0 \<le> overall_confidence ?r \<and> overall_confidence ?r \<le> 1"
    by blast+
  then show ?thesis
    using h4 by (simp add: unit_interval_def demo_run_with_layout)
qed

end
